theory Spec2Isabelle
  imports Main "HOL-Library.Word" "HOL-Library.Finite_Map"
begin

section \<open>Go values\<close>

text \<open>
  Go's fixed-width integers are words: \<open>uint64\<close> is read with \<open>unat\<close>/\<open>uint\<close> and
  compared with \<open>\<le>\<close>, \<open>int64\<close> (and \<open>time.Duration\<close>, which is an \<open>int64\<close> of
  nanoseconds) is read with \<open>sint\<close> and compared with \<open>\<le>s\<close>. \<open>*big.Int\<close> is \<open>int\<close>.
  A Go \<open>map[string]T\<close> is a finite map, \<open>len\<close> is the size of its domain.
\<close>

type_synonym uint64 = "64 word"
type_synonym int64 = "64 word"
type_synonym Duration = "64 word"
type_synonym bytes = string

text \<open>
  \<open>[]byte\<close> and \<open>string\<close> are both byte sequences, so \<open>[]byte(s)\<close> is \<open>s\<close>.
  \<open>common.Hash\<close> and \<open>common.Address\<close> are fixed-size byte arrays compared with
  \<open>==\<close>; a decoded transaction and a simulation result are opaque values.
\<close>

datatype Hash = BytesToHash bytes
datatype Address = BytesToAddress bytes
datatype Transaction = Transaction bytes
datatype PublicKey = PublicKey bytes
datatype bestProposedWork = bestProposedWork nat

text \<open>
  A Go function either returns or panics. A panic unwinds the call, so nothing the
  function would have returned exists.
\<close>

datatype panic =
    NilPointerDereference
  | PanicError string

datatype 'a outcome = Returned 'a | Panics panic

text \<open>
  Every \<open>error\<close> value the three packages build, one constructor for each
  \<open>errors.New\<close>/\<open>fmt.Errorf\<close> site with the values it formats, and \<open>External\<close>
  for an error handed back by a collaborator (dialer, RPC client, codec, crypto), whose
  text is opaque here. An error that wraps another one carries it.
\<close>

datatype error =
    External string
  | RelayNotFound string
  | RelayGrpcNotFound string
  | ProposedBlockTooLate int Duration
  | GasUsedExceeds uint64 uint64
  | GasLimitDifferent uint64 uint64
  | SimulationFailed error
  | ContextTimeout error
  | BuilderNotEnabled
  | MissingBlockNumber
  | MissingParentHash
  | MissingGasLimit
  | MissingGasValue
  | InvalidBuilderFee
  | GasValueLowerThanBuilderFee
  | MissingBuilderAddress
  | WrongBuilderAddressFormat
  | InvalidBlockHeight int64 int
  | InvalidParentHash string string
  | InvalidTxs error
  | FailToVerifySignature error
  | InvalidSignature Address Address
  | ProposedBlockMissingTxs
  | ProposedBlockMissingBlockNumber
  | IncorrectBlockNumber uint64 int Hash
  | StatusInternal error

section \<open>Relay registry (package miner, ClientMapping)\<close>

text \<open>
  A dialled client is a handle. \<open>rpc.Dial\<close> and \<open>grpc.Dial\<close> are collaborators: the
  model takes them as functions from the endpoint to an error or a handle.
\<close>

datatype rpc_Client = RpcClient nat
datatype ProposerClient = GrpcClient nat

type_synonym ClientMap = "(string, rpc_Client) fmap"
type_synonym ClientGrpcMap = "(string, ProposerClient) fmap"

text \<open>
  The \<open>sync.RWMutex\<close> makes each method atomic; the model runs one method at a time
  and has no field for it.
\<close>

record ClientMapping =
  clientMap :: ClientMap
  clientGrpcMap :: ClientGrpcMap

record Dialer =
  rpc_Dial :: "string \<Rightarrow> error + rpc_Client"
  grpc_Dial :: "string \<Rightarrow> error + ProposerClient"

fun dialAllGrpc :: "Dialer \<Rightarrow> string list \<Rightarrow> ClientGrpcMap \<Rightarrow> ClientGrpcMap" where
  "dialAllGrpc d [] m = m"
| "dialAllGrpc d (endpoint # rest) m =
     (case grpc_Dial d endpoint of
        Inl err \<Rightarrow> dialAllGrpc d rest m
      | Inr conn \<Rightarrow> dialAllGrpc d rest (fmupd endpoint conn m))"

fun dialAll :: "Dialer \<Rightarrow> string list \<Rightarrow> ClientMap \<Rightarrow> ClientMap" where
  "dialAll d [] m = m"
| "dialAll d (relay # rest) m =
     (case rpc_Dial d relay of
        Inl err \<Rightarrow> dialAll d rest m
      | Inr client \<Rightarrow> dialAll d rest (fmupd relay client m))"

definition NewClientMap :: "Dialer \<Rightarrow> string list \<Rightarrow> string list \<Rightarrow> ClientMapping" where
  "NewClientMap d relays relaysGRPC =
     \<lparr>clientMap = dialAll d relays fmempty,
      clientGrpcMap = dialAllGrpc d relaysGRPC fmempty\<rparr>"

definition Len :: "ClientMapping \<Rightarrow> nat" where
  "Len c = fcard (fmdom (clientMap c))"

definition Mapping :: "ClientMapping \<Rightarrow> ClientMap" where
  "Mapping c = clientMap c"

definition Get :: "ClientMapping \<Rightarrow> string \<Rightarrow> rpc_Client option" where
  "Get c relay = fmlookup (clientMap c) relay"

definition Add :: "Dialer \<Rightarrow> ClientMapping \<Rightarrow> string \<Rightarrow> (error + rpc_Client) \<times> ClientMapping" where
  "Add d c relay =
     (case rpc_Dial d relay of
        Inl err \<Rightarrow> (Inl err, c)
      | Inr client \<Rightarrow> (Inr client, c\<lparr>clientMap := fmupd relay client (clientMap c)\<rparr>))"

definition Remove :: "ClientMapping \<Rightarrow> string \<Rightarrow> error option \<times> ClientMapping" where
  "Remove c relay =
     (if fmlookup (clientMap c) relay = None then (Some (RelayNotFound relay), c)
      else (None, c\<lparr>clientMap := fmdrop relay (clientMap c)\<rparr>))"

definition MappingGRPC :: "ClientMapping \<Rightarrow> ClientGrpcMap" where
  "MappingGRPC c = clientGrpcMap c"

definition LenGRPC :: "ClientMapping \<Rightarrow> nat" where
  "LenGRPC c = fcard (fmdom (clientGrpcMap c))"

text \<open>
  \<open>AddGrpc\<close> builds two proposer clients over the one connection, stores one and
  returns the other; the handle stands for the connection.
\<close>

definition AddGrpc :: "Dialer \<Rightarrow> ClientMapping \<Rightarrow> string \<Rightarrow> (error + ProposerClient) \<times> ClientMapping" where
  "AddGrpc d c relay =
     (case grpc_Dial d relay of
        Inl err \<Rightarrow> (Inl err, c)
      | Inr conn \<Rightarrow> (Inr conn, c\<lparr>clientGrpcMap := fmupd relay conn (clientGrpcMap c)\<rparr>))"

definition GetGRPC :: "ClientMapping \<Rightarrow> string \<Rightarrow> ProposerClient option" where
  "GetGRPC c relay = fmlookup (clientGrpcMap c) relay"

definition RemoveGrpc :: "ClientMapping \<Rightarrow> string \<Rightarrow> error option \<times> ClientMapping" where
  "RemoveGrpc c relay =
     (if fmlookup (clientGrpcMap c) relay = None then (Some (RelayGrpcNotFound relay), c)
      else (None, c\<lparr>clientGrpcMap := fmdrop relay (clientGrpcMap c)\<rparr>))"

section \<open>Time (package time)\<close>

text \<open>
  An instant is its number of nanoseconds since the Unix epoch. \<open>time.Unix(sec, 0)\<close>
  takes an \<open>int64\<close> of seconds, \<open>Add\<close> a \<open>Duration\<close>; \<open>Sub\<close> saturates at the
  least and greatest \<open>Duration\<close>, and \<open>time.Until(t)\<close> is \<open>t.Sub(time.Now())\<close>
  for an instant built by \<open>time.Unix\<close>, which has no monotonic reading. Instants are
  unbounded here: the wrap-around of the \<open>uint64\<close> sum of timestamp and period, its
  conversion to \<open>int64\<close> and the negation of the duration are in the model, the limits
  of the library's own representation of an instant are not.
\<close>

type_synonym Time = int

definition Second :: int where
  "Second = 1000000000"

definition minDuration :: Duration where
  "minDuration = word_of_int (- (2 ^ 63))"

definition maxDuration :: Duration where
  "maxDuration = word_of_int (2 ^ 63 - 1)"

definition Unix :: "int64 \<Rightarrow> Time" where
  "Unix sec = sint sec * Second"

definition Time_Add :: "Time \<Rightarrow> Duration \<Rightarrow> Time" where
  "Time_Add t d = t + sint d"

definition Time_Sub :: "Time \<Rightarrow> Time \<Rightarrow> Duration" where
  "Time_Sub t u =
     (if t - u < - (2 ^ 63) then minDuration
      else if 2 ^ 63 - 1 < t - u then maxDuration
      else word_of_int (t - u))"

definition Until :: "Time \<Rightarrow> Time \<Rightarrow> Duration" where
  "Until now t = Time_Sub t now"

section \<open>Miner (package miner)\<close>

record Config =
  DelayLeftOver :: Duration
  GasCeil :: uint64

record ProposedBlockArgs =
  mevRelay :: string
  blockNumber :: int
  prevBlockHash :: Hash
  blockReward :: int
  gasLimit :: uint64
  gasUsed :: uint64
  txs :: "Transaction list"
  unReverted :: "Hash fset"

record ProposedBlock_envelope =
  args :: ProposedBlockArgs
  simulatedWork :: bestProposedWork
  simDuration :: Duration

text \<open>
  The worker's fields that \<open>Miner.ProposedBlock\<close> reads: its configuration, the slot
  period \<open>chainConfig.Parlia.Period\<close>, the two atomically loaded gas limits and the
  channel \<open>proposedCh\<close>, held as the envelopes sent on it so far. \<open>simulateCalls\<close>
  records each invocation of the simulation engine with the arguments it got.
\<close>

record worker =
  config :: Config
  Period :: uint64
  currentGasLimit :: uint64
  prevBlockGasLimit :: uint64
  proposedCh :: "ProposedBlock_envelope list"
  simulateCalls :: "ProposedBlockArgs list"

text \<open>
  \<open>currentBlockTime\<close> is \<open>miner.eth.BlockChain().CurrentBlock().Time()\<close>.
\<close>

record Miner =
  worker :: worker
  currentBlockTime :: uint64
  mevRelays :: ClientMapping
  proposedBlockUri :: string
  proposedBlockGrpcUri :: string
  proposedBlockNamespace :: string
  signedProposedBlockUri :: bytes

record RegisterValidatorArgs =
  Data :: bytes
  Signature :: bytes
  Namespace :: string
  CommitHash :: string
  args_GasCeil :: uint64

record RegisterValidatorRequest =
  req_Data :: bytes
  req_Signature :: bytes
  req_Namespace :: string
  req_CommitHash :: string

text \<open>
  What the miner calls outside itself: the clock, \<open>core.CalcGasLimit\<close>, the simulation
  engine \<open>worker.simulateProposedBlock\<close> (given the timeout of the derived context and
  the arguments, it returns work or nil, the elapsed duration, and an error or nil), the
  outcome of the final \<open>select\<close> (\<open>Some e\<close> when the context is done first, with
  \<open>e\<close> its \<open>Err()\<close>; \<open>None\<close> when the channel takes the envelope), the remote call
  of an RPC client, and \<open>version.CommitHash()\<close>.
\<close>

record World =
  Now :: Time
  CalcGasLimit :: "uint64 \<Rightarrow> uint64 \<Rightarrow> uint64"
  simulateProposedBlock ::
    "Duration \<Rightarrow> ProposedBlockArgs \<Rightarrow> bestProposedWork option \<times> Duration \<times> error option"
  proposingCtx_Done :: "error option"
  rpc_Call :: "rpc_Client \<Rightarrow> string \<Rightarrow> RegisterValidatorArgs \<Rightarrow> error + string"
  version_CommitHash :: string

definition endOfProposingWindow :: "Miner \<Rightarrow> Time" where
  "endOfProposingWindow miner =
     Time_Add (Unix (currentBlockTime miner + Period (worker miner)))
       (- DelayLeftOver (config (worker miner)))"

definition ProposedBlock ::
  "World \<Rightarrow> Miner \<Rightarrow> string \<Rightarrow> int \<Rightarrow> Hash \<Rightarrow> int \<Rightarrow> uint64 \<Rightarrow> uint64 \<Rightarrow>
   Transaction list \<Rightarrow> Hash fset \<Rightarrow> (Duration \<times> error option) \<times> Miner" where
  "ProposedBlock w miner mevRelay' blockNumber' prevBlockHash' reward gasLimit' gasUsed' txs'
     unReverted' =
     (let timeout = Until (Now w) (endOfProposingWindow miner) in
      if timeout \<le>s 0 then
        ((0, Some (ProposedBlockTooLate (endOfProposingWindow miner) timeout)), miner)
      else
        let currentGasLimit' = currentGasLimit (worker miner);
            previousBlockGasLimit = prevBlockGasLimit (worker miner);
            isBlockSkipped = (gasUsed' > currentGasLimit')
        in
        if isBlockSkipped then
          ((0, Some (GasUsedExceeds gasUsed' currentGasLimit')), miner)
        else
          let desiredGasLimit =
                CalcGasLimit w previousBlockGasLimit (GasCeil (config (worker miner)))
          in
          if desiredGasLimit \<noteq> gasLimit' then
            ((0, Some (GasLimitDifferent gasLimit' desiredGasLimit)), miner)
          else
            let args' = \<lparr>mevRelay = mevRelay', blockNumber = blockNumber',
                         prevBlockHash = prevBlockHash', blockReward = reward,
                         gasLimit = gasLimit', gasUsed = gasUsed', txs = txs',
                         unReverted = unReverted'\<rparr>;
                simulated = miner\<lparr>worker := (worker miner)
                              \<lparr>simulateCalls := simulateCalls (worker miner) @ [args']\<rparr>\<rparr>
            in
            case simulateProposedBlock w timeout args' of
              (simWork, simDuration', Some err) \<Rightarrow>
                ((simDuration', Some (SimulationFailed err)), simulated)
            | (None, simDuration', None) \<Rightarrow> ((simDuration', None), simulated)
            | (Some work, simDuration', None) \<Rightarrow>
                (case proposingCtx_Done w of
                   Some ctxErr \<Rightarrow> ((simDuration', Some (ContextTimeout ctxErr)), simulated)
                 | None \<Rightarrow>
                     ((simDuration', None),
                      simulated\<lparr>worker := (worker simulated)
                        \<lparr>proposedCh := proposedCh (worker simulated) @
                           [\<lparr>args = args', simulatedWork = work,
                             simDuration = simDuration'\<rparr>]\<rparr>\<rparr>)))"

text \<open>
  A registration broadcast starts one goroutine for each entry of the chosen pool's
  snapshot; each makes one call, and its result is only logged. The broadcast is the
  set of calls it issues.
\<close>

datatype registration_call =
    RpcRegister string rpc_Client string RegisterValidatorArgs
  | GrpcRegister string ProposerClient RegisterValidatorRequest

text \<open>Whether a call goes over the legacy RPC transport.\<close>

definition is_legacy_call :: "registration_call \<Rightarrow> bool" where
  "is_legacy_call call =
     (case call of RpcRegister dest client method a \<Rightarrow> True | GrpcRegister dest client r \<Rightarrow> False)"

definition registerValidatorViaGRPC :: "World \<Rightarrow> Miner \<Rightarrow> registration_call fset" where
  "registerValidatorViaGRPC w miner =
     (let registerValidatorArgs =
            \<lparr>req_Data = proposedBlockGrpcUri miner,
             req_Signature = signedProposedBlockUri miner,
             req_Namespace = proposedBlockNamespace miner,
             req_CommitHash = version_CommitHash w\<rparr>
      in (\<lambda>(dest, destClient). GrpcRegister dest destClient registerValidatorArgs)
           |`| fset_of_fmap (MappingGRPC (mevRelays miner)))"

definition registerValidator :: "World \<Rightarrow> Miner \<Rightarrow> registration_call fset" where
  "registerValidator w miner =
     (if proposedBlockGrpcUri miner \<noteq> [] \<and> LenGRPC (mevRelays miner) \<noteq> 0 then
        registerValidatorViaGRPC w miner
      else
        let registerValidatorArgs =
              \<lparr>Data = proposedBlockUri miner,
               Signature = signedProposedBlockUri miner,
               Namespace = proposedBlockNamespace miner,
               CommitHash = version_CommitHash w,
               args_GasCeil = GasCeil (config (worker miner))\<rparr>
        in (\<lambda>(dest, destClient).
              RpcRegister dest destClient ''eth_registerValidator'' registerValidatorArgs)
             |`| fset_of_fmap (Mapping (mevRelays miner)))"

definition AddRelay :: "Dialer \<Rightarrow> World \<Rightarrow> Miner \<Rightarrow> string \<Rightarrow> error option \<times> Miner" where
  "AddRelay d w miner relay =
     (case Add d (mevRelays miner) relay of
        (Inl err, c) \<Rightarrow> (Some err, miner\<lparr>mevRelays := c\<rparr>)
      | (Inr client, c) \<Rightarrow>
          (let registerValidatorArgs =
                 \<lparr>Data = proposedBlockUri miner,
                  Signature = signedProposedBlockUri miner,
                  Namespace = proposedBlockNamespace miner,
                  CommitHash = version_CommitHash w,
                  args_GasCeil = GasCeil (config (worker miner))\<rparr>
           in case rpc_Call w client ''eth_registerValidator'' registerValidatorArgs of
                Inl err \<Rightarrow> (Some err, miner\<lparr>mevRelays := c\<rparr>)
              | Inr result \<Rightarrow> (None, miner\<lparr>mevRelays := c\<rparr>)))"

definition RemoveRelay :: "Miner \<Rightarrow> string \<Rightarrow> error option \<times> Miner" where
  "RemoveRelay miner relay =
     (case Remove (mevRelays miner) relay of (err, c) \<Rightarrow> (err, miner\<lparr>mevRelays := c\<rparr>))"

section \<open>Builder bids (package ethapi)\<close>

text \<open>
  \<open>BidArgs.Message\<close> is a pointer: \<open>None\<close> is nil, and reading a field through it
  panics.
\<close>

record BidMessage =
  Block :: int64
  ParentHash :: string
  Timestamp :: int64
  BuilderAddress :: string
  GasLimit :: int64
  GasValue :: int64
  BuilderFeeValue :: int64
  Txs :: "bytes list"

record BidArgs =
  Message :: "BidMessage option"
  bid_Signature :: string

text \<open>
  The head block as the two ingress validators read it: \<open>Number()\<close>, a big integer, and
  \<open>Hash()\<close>.
\<close>

record types_Block =
  block_Number :: int
  block_Hash :: Hash

text \<open>
  The codecs and crypto primitives are collaborators, taken as functions.
  \<open>hexutil_Decode\<close> is \<open>hexutil.Decode\<close>, which returns an error on a string that is
  not well-formed hex.
\<close>

record Codec =
  IsHexAddress :: "string \<Rightarrow> bool"
  HexToAddress :: "string \<Rightarrow> Address"
  HexToHash :: "string \<Rightarrow> Hash"
  Hash_Hex :: "Hash \<Rightarrow> string"
  UnmarshalBinary :: "bytes \<Rightarrow> error + Transaction"
  rlp_EncodeToBytes :: "BidMessage option \<Rightarrow> error + bytes"
  hexutil_Decode :: "string \<Rightarrow> error + bytes"
  Ecrecover :: "bytes \<Rightarrow> bytes \<Rightarrow> error + bytes"
  UnmarshalPubkey :: "bytes \<Rightarrow> error + PublicKey"
  PubkeyToAddress :: "PublicKey \<Rightarrow> Address"

text \<open>
  The \<open>Backend\<close> interface, and the calls made through it in the order they were made.
\<close>

record Backend =
  BuilderEnabled :: bool
  CurrentBlock :: types_Block
  backend_Bid ::
    "Address \<Rightarrow> int64 \<Rightarrow> Transaction list \<Rightarrow> int64 \<Rightarrow> int64 \<Rightarrow> int64 \<Rightarrow> error option"
  backend_ProposedBlock :: "ProposedBlockArgs \<Rightarrow> Duration \<times> error option"

datatype backend_call =
    Call_BuilderEnabled
  | Call_CurrentBlock
  | Call_Bid Address int64 "Transaction list" int64 int64 int64
  | Call_ProposedBlock ProposedBlockArgs

definition checkBasic :: "Codec \<Rightarrow> BidArgs \<Rightarrow> error option outcome" where
  "checkBasic c bid =
     (case Message bid of
        None \<Rightarrow> Panics NilPointerDereference
      | Some m \<Rightarrow>
          Returned
           (if Block m = 0 then Some MissingBlockNumber
            else if ParentHash m = [] then Some MissingParentHash
            else if GasLimit m \<le>s 0 then Some MissingGasLimit
            else if GasValue m \<le>s 0 then Some MissingGasValue
            else if BuilderFeeValue m <s 0 then Some InvalidBuilderFee
            else if GasValue m \<le>s BuilderFeeValue m then Some GasValueLowerThanBuilderFee
            else if BuilderAddress m = [] then Some MissingBuilderAddress
            else if \<not> IsHexAddress c (BuilderAddress m) then Some WrongBuilderAddressFormat
            else None))"

fun decodeTxs :: "Codec \<Rightarrow> bytes list \<Rightarrow> Transaction list \<Rightarrow> error + Transaction list" where
  "decodeTxs c [] acc = Inr acc"
| "decodeTxs c (encodedTx # rest) acc =
     (case UnmarshalBinary c encodedTx of
        Inl err \<Rightarrow> Inl err
      | Inr tx \<Rightarrow> decodeTxs c rest (acc @ [tx]))"

definition checkBlock :: "Codec \<Rightarrow> BidArgs \<Rightarrow> types_Block \<Rightarrow> (error + Transaction list) outcome" where
  "checkBlock c bid currentBlock =
     (case Message bid of
        None \<Rightarrow> Panics NilPointerDereference
      | Some m \<Rightarrow>
          Returned
           (if sint (Block m) \<noteq> block_Number currentBlock + 1 then
              Inl (InvalidBlockHeight (Block m) (block_Number currentBlock))
            else if ParentHash m \<noteq> Hash_Hex c (block_Hash currentBlock) then
              Inl (InvalidParentHash (ParentHash m) (Hash_Hex c (block_Hash currentBlock)))
            else
              case decodeTxs c (Txs m) [] of
                Inl err \<Rightarrow> Inl (InvalidTxs err)
              | Inr txs' \<Rightarrow> Inr txs'))"

text \<open>
  \<open>hexutil.MustDecode\<close> is \<open>hexutil.Decode\<close> with a panic in place of the error.
\<close>

definition MustDecode :: "Codec \<Rightarrow> string \<Rightarrow> bytes outcome" where
  "MustDecode c input =
     (case hexutil_Decode c input of
        Inl err \<Rightarrow> Panics (PanicError input)
      | Inr dec \<Rightarrow> Returned dec)"

definition checkSignature :: "Codec \<Rightarrow> BidArgs \<Rightarrow> error option outcome" where
  "checkSignature c bid =
     (case rlp_EncodeToBytes c (Message bid) of
        Inl err \<Rightarrow> Returned (Some (FailToVerifySignature err))
      | Inr hash \<Rightarrow>
          (case MustDecode c (bid_Signature bid) of
             Panics p \<Rightarrow> Panics p
           | Returned sig \<Rightarrow>
               (case Ecrecover c hash sig of
                  Inl err \<Rightarrow> Returned (Some (FailToVerifySignature err))
                | Inr sigPublicKey \<Rightarrow>
                    (case UnmarshalPubkey c sigPublicKey of
                       Inl err \<Rightarrow> Returned (Some (FailToVerifySignature err))
                     | Inr pk \<Rightarrow>
                         (case Message bid of
                            None \<Rightarrow> Panics NilPointerDereference
                          | Some m \<Rightarrow>
                              (let expected = PubkeyToAddress c pk;
                                   actual = HexToAddress c (BuilderAddress m)
                               in if expected \<noteq> actual then
                                    Returned (Some (InvalidSignature expected actual))
                                  else Returned None))))))"

definition Bid :: "Codec \<Rightarrow> Backend \<Rightarrow> BidArgs \<Rightarrow> error option outcome \<times> backend_call list" where
  "Bid c b bid =
     (if \<not> BuilderEnabled b then (Returned (Some BuilderNotEnabled), [Call_BuilderEnabled])
      else
        case checkBasic c bid of
          Panics p \<Rightarrow> (Panics p, [Call_BuilderEnabled])
        | Returned (Some err) \<Rightarrow> (Returned (Some err), [Call_BuilderEnabled])
        | Returned None \<Rightarrow>
            (case checkBlock c bid (CurrentBlock b) of
               Panics p \<Rightarrow> (Panics p, [Call_BuilderEnabled, Call_CurrentBlock])
             | Returned (Inl err) \<Rightarrow>
                 (Returned (Some err), [Call_BuilderEnabled, Call_CurrentBlock])
             | Returned (Inr txs') \<Rightarrow>
                 (case checkSignature c bid of
                    Panics p \<Rightarrow> (Panics p, [Call_BuilderEnabled, Call_CurrentBlock])
                  | Returned (Some err) \<Rightarrow>
                      (Returned (Some err), [Call_BuilderEnabled, Call_CurrentBlock])
                  | Returned None \<Rightarrow>
                      (case Message bid of
                         None \<Rightarrow> (Panics NilPointerDereference,
                                   [Call_BuilderEnabled, Call_CurrentBlock])
                       | Some m \<Rightarrow>
                           (Returned
                              (backend_Bid b (HexToAddress c (BuilderAddress m)) (Block m) txs'
                                 (GasValue m) (BuilderFeeValue m) (GasLimit m)),
                            [Call_BuilderEnabled, Call_CurrentBlock,
                             Call_Bid (HexToAddress c (BuilderAddress m)) (Block m) txs'
                               (GasValue m) (BuilderFeeValue m) (GasLimit m)])))))"

section \<open>Relay block proposals (package grpc, Proposer)\<close>

text \<open>
  The request is a pointer too. Its fields are named after the generated getters.
\<close>

record ProposeBlockRequest =
  GetPayload :: "bytes list"
  GetBlockNumber :: uint64
  GetPrevBlockHash :: string
  GetBlockReward :: uint64
  GetGasLimit :: uint64
  GetGasUsed :: uint64
  GetMevRelay :: string

record ProposeBlockResponse =
  ReceivedAt :: string
  SimulatedDuration :: Duration
  ResponseSentAt :: string

text \<open>
  \<open>big.Int.Cmp\<close>, and \<open>new(big.Int).SetUint64\<close>, which reads the word as unsigned.
\<close>

definition Cmp :: "int \<Rightarrow> int \<Rightarrow> int" where
  "Cmp x y = (if x < y then - 1 else if x = y then 0 else 1)"

definition SetUint64 :: "uint64 \<Rightarrow> int" where
  "SetUint64 x = uint x"

text \<open>
  \<open>receivedAt\<close> and \<open>sentAt\<close> are the two readings of the clock, already formatted.
\<close>

definition ProposeBlock ::
  "Codec \<Rightarrow> Backend \<Rightarrow> string \<Rightarrow> string \<Rightarrow> ProposeBlockRequest option \<Rightarrow>
   (error + ProposeBlockResponse) outcome \<times> backend_call list" where
  "ProposeBlock c backend receivedAt sentAt req =
     (case req of
        None \<Rightarrow> (Panics NilPointerDereference, [])
      | Some in' \<Rightarrow>
          if length (GetPayload in') = 0 then (Returned (Inl ProposedBlockMissingTxs), [])
          else if GetBlockNumber in' = 0 then
            (Returned (Inl ProposedBlockMissingBlockNumber), [])
          else
            let blockOnChain = CurrentBlock backend;
                proposedBlockNumber = SetUint64 (GetBlockNumber in')
            in
            if Cmp proposedBlockNumber (block_Number blockOnChain) < 1 then
              (Returned (Inl (IncorrectBlockNumber (GetBlockNumber in')
                   (block_Number blockOnChain) (block_Hash blockOnChain))),
               [Call_CurrentBlock])
            else
              (case decodeTxs c (GetPayload in') [] of
                Inl err \<Rightarrow> (Returned (Inl err), [Call_CurrentBlock])
              | Inr txs' \<Rightarrow>
                  (let unRevertedHashes = {||};
                       pipelineArgs =
                         \<lparr>mevRelay = GetMevRelay in',
                          blockNumber = SetUint64 (GetBlockNumber in'),
                          prevBlockHash = HexToHash c (GetPrevBlockHash in'),
                          blockReward = SetUint64 (GetBlockReward in'),
                          gasLimit = GetGasLimit in', gasUsed = GetGasUsed in',
                          txs = txs', unReverted = unRevertedHashes\<rparr>
                   in case backend_ProposedBlock backend pipelineArgs of
                        (simDuration', Some err) \<Rightarrow>
                          (Returned (Inl (StatusInternal err)),
                           [Call_CurrentBlock, Call_ProposedBlock pipelineArgs])
                      | (simDuration', None) \<Rightarrow>
                          (Returned (Inr \<lparr>ReceivedAt = receivedAt,
                                          SimulatedDuration = simDuration',
                                          ResponseSentAt = sentAt\<rparr>),
                           [Call_CurrentBlock, Call_ProposedBlock pipelineArgs]))))"

section \<open>Example values\<close>

text \<open>
  A validator on a chain with a 3 second slot whose head block has timestamp
  1700000000, reserving 50 ms to finalize: the proposing window ends at
  1700000002950000000 ns. One legacy relay is registered.
\<close>

definition example_Config :: Config where
  "example_Config = \<lparr>DelayLeftOver = 50000000, GasCeil = 8000000\<rparr>"

definition example_worker :: worker where
  "example_worker =
     \<lparr>config = example_Config, Period = 3, currentGasLimit = 8000000,
      prevBlockGasLimit = 8000000, proposedCh = [], simulateCalls = []\<rparr>"

definition example_relays :: ClientMapping where
  "example_relays =
     \<lparr>clientMap = fmupd ''https://relay-a'' (RpcClient 0) fmempty, clientGrpcMap = fmempty\<rparr>"

definition example_Miner :: Miner where
  "example_Miner =
     \<lparr>worker = example_worker, currentBlockTime = 1700000000, mevRelays = example_relays,
      proposedBlockUri = ''https://validator'', proposedBlockGrpcUri = ''validator:5005'',
      proposedBlockNamespace = ''eth'', signedProposedBlockUri = ''sig''\<rparr>"

text \<open>
  A world in which the gas-limit formula keeps the previous limit, the simulation skips
  every block after 7 ns, the channel takes what is sent, and every remote registration
  is refused.
\<close>

definition example_World :: "Time \<Rightarrow> World" where
  "example_World t =
     \<lparr>Now = t, CalcGasLimit = (\<lambda>prev ceil. prev),
      simulateProposedBlock = (\<lambda>timeout a. (None, 7, None)),
      proposingCtx_Done = None,
      rpc_Call = (\<lambda>client method a. Inl (External ''connection refused'')),
      version_CommitHash = ''abc123''\<rparr>"

definition example_Dialer :: Dialer where
  "example_Dialer =
     \<lparr>rpc_Dial = (\<lambda>relay. Inr (RpcClient 1)), grpc_Dial = (\<lambda>relay. Inr (GrpcClient 1))\<rparr>"

text \<open>
  A registry with two legacy relays and one gRPC relay, and the miner that has it.
\<close>

definition example_relays_grpc :: ClientMapping where
  "example_relays_grpc =
     \<lparr>clientMap = fmupd ''https://relay-a'' (RpcClient 0)
                    (fmupd ''https://relay-b'' (RpcClient 2) fmempty),
      clientGrpcMap = fmupd ''relay-g:443'' (GrpcClient 0) fmempty\<rparr>"

definition example_Miner_grpc :: Miner where
  "example_Miner_grpc = example_Miner\<lparr>mevRelays := example_relays_grpc\<rparr>"

text \<open>
  Stand-ins for the codecs and the crypto: a hex address is a string of 42 bytes, an
  empty transaction payload does not decode, hex must start with \<open>0x\<close>, and the
  recovered key is the signature itself. The backend has builder mode on and its head
  is block 100.
\<close>

definition example_Codec :: Codec where
  "example_Codec =
     \<lparr>IsHexAddress = (\<lambda>s. length s = 42),
      HexToAddress = BytesToAddress,
      HexToHash = BytesToHash,
      Hash_Hex = (\<lambda>h. case h of BytesToHash b \<Rightarrow> b),
      UnmarshalBinary =
        (\<lambda>b. if b = [] then Inl (External ''typed transaction too short'')
             else Inr (Transaction b)),
      rlp_EncodeToBytes = (\<lambda>m. Inr ''rlp''),
      hexutil_Decode =
        (\<lambda>s. if take 2 s = ''0x'' then Inr (drop 2 s)
             else Inl (External ''hex string without 0x prefix'')),
      Ecrecover = (\<lambda>hash sig. Inr sig),
      UnmarshalPubkey = (\<lambda>b. Inr (PublicKey b)),
      PubkeyToAddress = (\<lambda>pk. case pk of PublicKey b \<Rightarrow> BytesToAddress b)\<rparr>"

definition example_Backend :: Backend where
  "example_Backend =
     \<lparr>BuilderEnabled = True,
      CurrentBlock = \<lparr>block_Number = 100, block_Hash = BytesToHash ''0xhead''\<rparr>,
      backend_Bid = (\<lambda>builder block ts gasValue fee gasLimit. None),
      backend_ProposedBlock = (\<lambda>a. (50000000, None))\<rparr>"

definition example_BidMessage :: BidMessage where
  "example_BidMessage =
     \<lparr>Block = 101, ParentHash = ''0xhead'', Timestamp = 1700000003,
      BuilderAddress = ''0x1111111111111111111111111111111111111111'',
      GasLimit = 8000000, GasValue = 5, BuilderFeeValue = 5, Txs = []\<rparr>"

definition example_ProposeBlockRequest :: ProposeBlockRequest where
  "example_ProposeBlockRequest =
     \<lparr>GetPayload = [''tx''], GetBlockNumber = 100, GetPrevBlockHash = ''0xhead'',
      GetBlockReward = 1, GetGasLimit = 8000000, GetGasUsed = 5000000,
      GetMevRelay = ''relay''\<rparr>"

section \<open>Time lemmas\<close>

lemma sint_minDuration: "sint minDuration = - (2 ^ 63)"
  by (simp add: minDuration_def)

lemma sint_maxDuration: "sint maxDuration = 2 ^ 63 - 1"
  by (simp add: maxDuration_def)

lemma sint_word_of_int_in_range:
  "- (2 ^ 63) \<le> d \<Longrightarrow> d \<le> 2 ^ 63 - 1 \<Longrightarrow> sint (word_of_int d :: 64 word) = d"
  by (simp add: sint_sbintrunc' signed_take_bit_int_eq_self)

lemma sint_Time_Sub_in_range:
  assumes "- (2 ^ 63) \<le> t - u" and "t - u \<le> 2 ^ 63 - 1"
  shows "sint (Time_Sub t u) = t - u"
proof -
  have "\<not> t - u < - (2 ^ 63)" and "\<not> 2 ^ 63 - 1 < t - u"
    using assms by simp_all
  then have "Time_Sub t u = word_of_int (t - u)"
    unfolding Time_Sub_def by (simp only: if_False)
  then show ?thesis
    by (simp only: sint_word_of_int_in_range [OF assms])
qed

text \<open>
  The saturation of \<open>Sub\<close> keeps the sign, so the test \<open>timeout <= 0\<close> is the
  comparison of the two instants.
\<close>

lemma Until_nonpositive_iff: "(Until now t \<le>s 0) = (t \<le> now)"
proof -
  consider "t - now < - (2 ^ 63)" | "2 ^ 63 - 1 < t - now"
    | "- (2 ^ 63) \<le> t - now" "t - now \<le> 2 ^ 63 - 1"
    by linarith
  then show ?thesis
  proof cases
    case 1
    then show ?thesis
      by (simp add: Until_def Time_Sub_def word_sle_eq sint_minDuration)
  next
    case 2
    then show ?thesis
      by (simp add: Until_def Time_Sub_def word_sle_eq sint_maxDuration)
  next
    case 3
    then show ?thesis
      by (simp add: Until_def word_sle_eq sint_Time_Sub_in_range)
  qed
qed

text \<open>
  While the sum of timestamp and period stays below \<open>2 ^ 63\<close> seconds and the reserve
  is not the least \<open>Duration\<close>, nothing wraps and the deadline is timestamp plus
  period, in nanoseconds, minus the reserve.
\<close>

lemma sint_sum_no_overflow:
  fixes a b :: "64 word"
  assumes "unat a + unat b < 2 ^ 63"
  shows "sint (a + b) = int (unat a) + int (unat b)"
proof -
  have "unat a + unat b < 2 ^ LENGTH(64)"
    using assms by simp
  then have sum: "unat (a + b) = unat a + unat b"
    by (simp only: unat_add_lem [THEN iffD1])
  have "uint (a + b) = int (unat (a + b))"
    by simp
  with sum have u: "uint (a + b) = int (unat a) + int (unat b)"
    by simp
  have "int (unat a) + int (unat b) < 2 ^ 63"
    using assms by (metis of_nat_add of_nat_less_iff of_nat_numeral of_nat_power)
  moreover have "- (2 ^ 63) \<le> int (unat a) + int (unat b)"
    by (rule order_trans [of _ 0]) simp_all
  ultimately
  have "signed_take_bit 63 (int (unat a) + int (unat b)) = int (unat a) + int (unat b)"
    by (rule signed_take_bit_int_eq_self [rotated])
  then show ?thesis
    by (simp add: sint_uint u)
qed

lemma sint_neg_no_overflow:
  fixes d :: "64 word"
  assumes "- (2 ^ 63) < sint d"
  shows "sint (- d) = - sint d"
proof -
  have "sint d < 2 ^ 63"
    using sint_lt [of d] by simp
  then have "signed_take_bit 63 (- sint d) = - sint d"
    using assms by (intro signed_take_bit_int_eq_self) simp_all
  then show ?thesis
    by (simp add: sint_word_ariths)
qed

lemma endOfProposingWindow_no_overflow:
  assumes "unat (currentBlockTime miner) + unat (Period (worker miner)) < 2 ^ 63"
    and "- (2 ^ 63) < sint (DelayLeftOver (config (worker miner)))"
  shows "endOfProposingWindow miner =
           (int (unat (currentBlockTime miner)) + int (unat (Period (worker miner)))) * Second
           - sint (DelayLeftOver (config (worker miner)))"
  using assms
  by (simp add: endOfProposingWindow_def Unix_def Time_Add_def sint_sum_no_overflow
      sint_neg_no_overflow)

lemma example_endOfProposingWindow:
  "endOfProposingWindow example_Miner = 1700000002950000000"
  by (simp add: endOfProposingWindow_def example_Miner_def example_worker_def
      example_Config_def Unix_def Time_Add_def Second_def)

section \<open>The proposal pipeline\<close>

text \<open>
  C1. A proposal that arrives at a time strictly past the deadline (the head block's
  timestamp plus the slot period, minus \<open>DelayLeftOver\<close>) gets the "too late" error
  at once: the miner is left as it was, and the simulation engine has not been invoked.
\<close>

theorem ProposedBlock_past_deadline:
  assumes "endOfProposingWindow miner < Now w"
  shows "ProposedBlock w miner relay number parent reward limit used transactions exempt =
           ((0, Some (ProposedBlockTooLate (endOfProposingWindow miner)
                        (Until (Now w) (endOfProposingWindow miner)))), miner)
         \<and> simulateCalls (worker (snd (ProposedBlock w miner relay number parent reward limit
               used transactions exempt))) = simulateCalls (worker miner)"
  using assms by (simp add: ProposedBlock_def Until_nonpositive_iff Let_def)

theorem ProposedBlock_past_deadline_witness:
  "endOfProposingWindow example_Miner < Now (example_World 1700000002950000001)
   \<and> ProposedBlock (example_World 1700000002950000001) example_Miner ''relay'' 101
        (BytesToHash ''H'') 1 8000000 5000000 [] {||} =
        ((0, Some (ProposedBlockTooLate (endOfProposingWindow example_Miner)
             (Until (Now (example_World 1700000002950000001))
                (endOfProposingWindow example_Miner)))), example_Miner)
   \<and> simulateCalls (worker (snd (ProposedBlock (example_World 1700000002950000001)
        example_Miner ''relay'' 101 (BytesToHash ''H'') 1 8000000 5000000 [] {||}))) = []"
proof -
  have late: "endOfProposingWindow example_Miner < Now (example_World 1700000002950000001)"
    by (simp add: example_endOfProposingWindow example_World_def)
  have "simulateCalls (worker example_Miner) = []"
    by (simp add: example_Miner_def example_worker_def)
  with late ProposedBlock_past_deadline [OF late, of "''relay''" 101 "BytesToHash ''H''" 1
      8000000 5000000 "[]" "{||}"]
  show ?thesis by simp
qed

text \<open>
  C5. Among the proposals that are in time, the gas pre-check rejects exactly those
  whose \<open>gasUsed\<close> is strictly greater than the current gas limit; \<open>gasUsed\<close>
  equal to the limit gets past it.
\<close>

theorem ProposedBlock_gas_precheck:
  assumes "Now w < endOfProposingWindow miner"
  shows "(snd (fst (ProposedBlock w miner relay number parent reward limit used transactions
            exempt)) = Some (GasUsedExceeds used (currentGasLimit (worker miner))))
         = (currentGasLimit (worker miner) < used)"
  using assms
  by (auto simp: ProposedBlock_def Until_nonpositive_iff Let_def
      split: prod.splits option.splits)

theorem ProposedBlock_gas_precheck_witness:
  "Now (example_World 1700000000000000000) < endOfProposingWindow example_Miner
   \<and> currentGasLimit (worker example_Miner) = 8000000
   \<and> snd (fst (ProposedBlock (example_World 1700000000000000000) example_Miner ''relay'' 101
        (BytesToHash ''H'') 1 8000000 8000000 [] {||}))
       \<noteq> Some (GasUsedExceeds 8000000 (currentGasLimit (worker example_Miner)))
   \<and> snd (fst (ProposedBlock (example_World 1700000000000000000) example_Miner ''relay'' 101
        (BytesToHash ''H'') 1 8000000 8000001 [] {||}))
       = Some (GasUsedExceeds 8000001 (currentGasLimit (worker example_Miner)))"
proof -
  have early: "Now (example_World 1700000000000000000) < endOfProposingWindow example_Miner"
    by (simp add: example_endOfProposingWindow example_World_def)
  have lim: "currentGasLimit (worker example_Miner) = 8000000"
    by (simp add: example_Miner_def example_worker_def)
  show ?thesis
    using early lim
      ProposedBlock_gas_precheck [OF early, of "''relay''" 101 "BytesToHash ''H''" 1 8000000
        8000000 "[]" "{||}"]
      ProposedBlock_gas_precheck [OF early, of "''relay''" 101 "BytesToHash ''H''" 1 8000000
        8000001 "[]" "{||}"]
    by simp
qed

text \<open>
  C4. For a proposal that is in time and whose \<open>gasUsed\<close> is within the current gas
  limit: if the submitted \<open>gasLimit\<close> differs from \<open>CalcGasLimit\<close> of the previous
  block's gas limit and the configured ceiling, the pipeline returns the mismatch error
  and the simulation engine is not invoked (the miner is unchanged); if it is equal, the
  check passes: the error is not the mismatch and the engine is invoked on the proposal.
  \<open>core.CalcGasLimit\<close> is a parameter of the model.
\<close>

theorem ProposedBlock_gasLimit_check:
  assumes "Now w < endOfProposingWindow miner"
    and "used \<le> currentGasLimit (worker miner)"
  shows "(limit \<noteq> CalcGasLimit w (prevBlockGasLimit (worker miner))
                    (GasCeil (config (worker miner))) \<longrightarrow>
            ProposedBlock w miner relay number parent reward limit used transactions exempt =
              ((0, Some (GasLimitDifferent limit
                   (CalcGasLimit w (prevBlockGasLimit (worker miner))
                      (GasCeil (config (worker miner)))))), miner))
         \<and> (limit = CalcGasLimit w (prevBlockGasLimit (worker miner))
                    (GasCeil (config (worker miner))) \<longrightarrow>
            snd (fst (ProposedBlock w miner relay number parent reward limit used transactions
                  exempt)) \<noteq> Some (GasLimitDifferent limit limit)
            \<and> simulateCalls (worker (snd (ProposedBlock w miner relay number parent reward limit
                  used transactions exempt))) =
                simulateCalls (worker miner) @
                  [\<lparr>mevRelay = relay, blockNumber = number, prevBlockHash = parent,
                    blockReward = reward, gasLimit = limit, gasUsed = used,
                    txs = transactions, unReverted = exempt\<rparr>])"
  using assms
  by (auto simp: ProposedBlock_def Until_nonpositive_iff Let_def
      split: prod.splits option.splits)

theorem ProposedBlock_gasLimit_check_witness:
  "Now (example_World 1700000000000000000) < endOfProposingWindow example_Miner
   \<and> (5000000 :: uint64) \<le> currentGasLimit (worker example_Miner)
   \<and> CalcGasLimit (example_World 1700000000000000000)
        (prevBlockGasLimit (worker example_Miner)) (GasCeil (config (worker example_Miner)))
       = 8000000
   \<and> ProposedBlock (example_World 1700000000000000000) example_Miner ''relay'' 101
        (BytesToHash ''H'') 1 7999999 5000000 [] {||} =
        ((0, Some (GasLimitDifferent 7999999 8000000)), example_Miner)
   \<and> simulateCalls (worker (snd (ProposedBlock (example_World 1700000000000000000)
        example_Miner ''relay'' 101 (BytesToHash ''H'') 1 8000000 5000000 [] {||}))) =
        [\<lparr>mevRelay = ''relay'', blockNumber = 101, prevBlockHash = BytesToHash ''H'',
          blockReward = 1, gasLimit = 8000000, gasUsed = 5000000, txs = [],
          unReverted = {||}\<rparr>]"
proof -
  have early: "Now (example_World 1700000000000000000) < endOfProposingWindow example_Miner"
    by (simp add: example_endOfProposingWindow example_World_def)
  have gas: "(5000000 :: uint64) \<le> currentGasLimit (worker example_Miner)"
    by (simp add: example_Miner_def example_worker_def)
  have desired: "CalcGasLimit (example_World 1700000000000000000)
        (prevBlockGasLimit (worker example_Miner)) (GasCeil (config (worker example_Miner)))
       = 8000000"
    by (simp add: example_World_def example_Miner_def example_worker_def)
  have calls: "simulateCalls (worker example_Miner) = []"
    by (simp add: example_Miner_def example_worker_def)
  show ?thesis
    using early gas desired calls
      ProposedBlock_gasLimit_check [OF early gas, of 7999999 "''relay''" 101
        "BytesToHash ''H''" 1 "[]" "{||}"]
      ProposedBlock_gasLimit_check [OF early gas, of 8000000 "''relay''" 101
        "BytesToHash ''H''" 1 "[]" "{||}"]
    by simp
qed

text \<open>
  C6. When a proposal gets past the three checks and the simulation returns a nil result
  with a nil error, the pipeline returns the simulation's duration with a nil error and
  sends nothing on \<open>proposedCh\<close>. The nil error sets the skip apart from every
  failure: the returned error is nil exactly when the proposal was in time, passed both
  gas checks, the simulation returned no error, and either it returned no work (the
  skip) or the channel took the envelope before the context was done.
\<close>

theorem ProposedBlock_skip:
  "(Now w < endOfProposingWindow miner
      \<and> used \<le> currentGasLimit (worker miner)
      \<and> CalcGasLimit w (prevBlockGasLimit (worker miner)) (GasCeil (config (worker miner)))
          = limit
      \<and> simulateProposedBlock w (Until (Now w) (endOfProposingWindow miner))
          \<lparr>mevRelay = relay, blockNumber = number, prevBlockHash = parent,
           blockReward = reward, gasLimit = limit, gasUsed = used,
           txs = transactions, unReverted = exempt\<rparr> = (None, d, None)
     \<longrightarrow> fst (ProposedBlock w miner relay number parent reward limit used transactions exempt)
           = (d, None)
         \<and> proposedCh (worker (snd (ProposedBlock w miner relay number parent reward limit used
             transactions exempt))) = proposedCh (worker miner))
   \<and> ((snd (fst (ProposedBlock w miner relay number parent reward limit used transactions
            exempt)) = None) =
       (Now w < endOfProposingWindow miner
        \<and> used \<le> currentGasLimit (worker miner)
        \<and> CalcGasLimit w (prevBlockGasLimit (worker miner)) (GasCeil (config (worker miner)))
            = limit
        \<and> (case simulateProposedBlock w (Until (Now w) (endOfProposingWindow miner))
              \<lparr>mevRelay = relay, blockNumber = number, prevBlockHash = parent,
               blockReward = reward, gasLimit = limit, gasUsed = used,
               txs = transactions, unReverted = exempt\<rparr> of
             (simWork, simDuration', err) \<Rightarrow>
               err = None \<and> (simWork = None \<or> proposingCtx_Done w = None))))"
  by (auto simp: ProposedBlock_def Until_nonpositive_iff Let_def
      split: prod.splits option.splits)

theorem ProposedBlock_skip_witness:
  "Now (example_World 1700000000000000000) < endOfProposingWindow example_Miner
   \<and> (5000000 :: uint64) \<le> currentGasLimit (worker example_Miner)
   \<and> CalcGasLimit (example_World 1700000000000000000)
        (prevBlockGasLimit (worker example_Miner)) (GasCeil (config (worker example_Miner)))
       = 8000000
   \<and> simulateProposedBlock (example_World 1700000000000000000)
        (Until (Now (example_World 1700000000000000000)) (endOfProposingWindow example_Miner))
        \<lparr>mevRelay = ''relay'', blockNumber = 101, prevBlockHash = BytesToHash ''H'',
         blockReward = 1, gasLimit = 8000000, gasUsed = 5000000, txs = [],
         unReverted = {||}\<rparr> = (None, 7, None)
   \<and> fst (ProposedBlock (example_World 1700000000000000000) example_Miner ''relay'' 101
        (BytesToHash ''H'') 1 8000000 5000000 [] {||}) = (7, None)
   \<and> proposedCh (worker (snd (ProposedBlock (example_World 1700000000000000000)
        example_Miner ''relay'' 101 (BytesToHash ''H'') 1 8000000 5000000 [] {||}))) = []"
proof -
  have early: "Now (example_World 1700000000000000000) < endOfProposingWindow example_Miner"
    by (simp add: example_endOfProposingWindow example_World_def)
  have gas: "(5000000 :: uint64) \<le> currentGasLimit (worker example_Miner)"
    by (simp add: example_Miner_def example_worker_def)
  have desired: "CalcGasLimit (example_World 1700000000000000000)
        (prevBlockGasLimit (worker example_Miner)) (GasCeil (config (worker example_Miner)))
       = 8000000"
    by (simp add: example_World_def example_Miner_def example_worker_def)
  have sim: "simulateProposedBlock (example_World 1700000000000000000) t a = (None, 7, None)"
    for t a
    by (simp add: example_World_def)
  have ch: "proposedCh (worker example_Miner) = []"
    by (simp add: example_Miner_def example_worker_def)
  show ?thesis
    using early gas desired sim ch
      ProposedBlock_skip [of "example_World 1700000000000000000" example_Miner 5000000
        8000000 "''relay''" 101 "BytesToHash ''H''" 1 "[]" "{||}" 7]
    by simp
qed

section \<open>The relay registry\<close>

lemma fcard_finsert_absent:
  "fmlookup m k = None \<Longrightarrow> fcard (finsert k (fmdom m)) = Suc (fcard (fmdom m))"
  by (simp add: fcard_finsert_if fmdom_notI)

lemma fcard_finsert_present:
  "fmlookup m k = Some v \<Longrightarrow> fcard (finsert k (fmdom m)) = fcard (fmdom m)"
  by (simp add: fcard_finsert_if fmdomI)

lemma fcard_remove_inserted:
  "Suc (fcard (fmdom m |-| {|k|})) = fcard (finsert k (fmdom m))"
  by (simp add: fcard_finsert)

lemma fmdrop_fmupd_fresh: "fmlookup m k = None \<Longrightarrow> fmdrop k (fmupd k v m) = m"
  by (simp add: fmdrop_fmupd_same fmdrop_idle fmdom_notI)

lemma example_relays_Len: "Len example_relays = 1"
  by (simp add: example_relays_def Len_def fcard_finsert_if)

lemma fimage_fset_of_fmapI:
  "fmlookup m k = Some v \<Longrightarrow> g k v |\<in>| (\<lambda>(k, v). g k v) |`| fset_of_fmap m"
  by (rule rev_fimage_eqI [of "(k, v)"]) simp_all

text \<open>
  C9, as the code has it. \<open>Remove\<close> (and \<open>RemoveGrpc\<close>) of an endpoint that is not
  in the pool returns the not-found error and leaves the registry as it was. After a
  successful \<open>Add\<close> (\<open>AddGrpc\<close>) of an endpoint, \<open>Remove\<close> (\<open>RemoveGrpc\<close>) of it
  succeeds and the endpoint is gone. \<open>Add\<close> raises the count by one when the endpoint
  was not in the pool and leaves it unchanged when it was (the entry is replaced);
  \<open>Remove\<close> lowers it by one. So \<open>Remove\<close> after \<open>Add\<close> restores the count, and the
  whole registry, from before the \<open>Add\<close> when the endpoint was not in the pool then.
\<close>

theorem Remove_contract:
  "(Get c relay = None \<longrightarrow> Remove c relay = (Some (RelayNotFound relay), c))
   \<and> (GetGRPC c relay = None \<longrightarrow> RemoveGrpc c relay = (Some (RelayGrpcNotFound relay), c))
   \<and> (rpc_Dial d relay = Inr client \<longrightarrow>
        fst (Add d c relay) = Inr client
        \<and> Len (snd (Add d c relay)) = (if Get c relay = None then Suc (Len c) else Len c)
        \<and> fst (Remove (snd (Add d c relay)) relay) = None
        \<and> Get (snd (Remove (snd (Add d c relay)) relay)) relay = None
        \<and> Suc (Len (snd (Remove (snd (Add d c relay)) relay))) = Len (snd (Add d c relay))
        \<and> (Get c relay = None \<longrightarrow> snd (Remove (snd (Add d c relay)) relay) = c))
   \<and> (grpc_Dial d relay = Inr conn \<longrightarrow>
        fst (AddGrpc d c relay) = Inr conn
        \<and> LenGRPC (snd (AddGrpc d c relay)) =
            (if GetGRPC c relay = None then Suc (LenGRPC c) else LenGRPC c)
        \<and> fst (RemoveGrpc (snd (AddGrpc d c relay)) relay) = None
        \<and> GetGRPC (snd (RemoveGrpc (snd (AddGrpc d c relay)) relay)) relay = None
        \<and> Suc (LenGRPC (snd (RemoveGrpc (snd (AddGrpc d c relay)) relay))) =
            LenGRPC (snd (AddGrpc d c relay))
        \<and> (GetGRPC c relay = None \<longrightarrow> snd (RemoveGrpc (snd (AddGrpc d c relay)) relay) = c))"
proof -
  have absent: "Get c relay = None \<longrightarrow> Remove c relay = (Some (RelayNotFound relay), c)"
    by (simp add: Get_def Remove_def)
  have absent_grpc:
    "GetGRPC c relay = None \<longrightarrow> RemoveGrpc c relay = (Some (RelayGrpcNotFound relay), c)"
    by (simp add: GetGRPC_def RemoveGrpc_def)
  have legacy: "fst (Add d c relay) = Inr client
        \<and> Len (snd (Add d c relay)) = (if Get c relay = None then Suc (Len c) else Len c)
        \<and> fst (Remove (snd (Add d c relay)) relay) = None
        \<and> Get (snd (Remove (snd (Add d c relay)) relay)) relay = None
        \<and> Suc (Len (snd (Remove (snd (Add d c relay)) relay))) = Len (snd (Add d c relay))
        \<and> (Get c relay = None \<longrightarrow> snd (Remove (snd (Add d c relay)) relay) = c)"
    if "rpc_Dial d relay = Inr client"
    using that
    by (auto simp: Add_def Remove_def Get_def Len_def fcard_finsert_absent
        fcard_finsert_present fcard_remove_inserted fmdrop_fmupd_fresh)
  have grpc: "fst (AddGrpc d c relay) = Inr conn
        \<and> LenGRPC (snd (AddGrpc d c relay)) =
            (if GetGRPC c relay = None then Suc (LenGRPC c) else LenGRPC c)
        \<and> fst (RemoveGrpc (snd (AddGrpc d c relay)) relay) = None
        \<and> GetGRPC (snd (RemoveGrpc (snd (AddGrpc d c relay)) relay)) relay = None
        \<and> Suc (LenGRPC (snd (RemoveGrpc (snd (AddGrpc d c relay)) relay))) =
            LenGRPC (snd (AddGrpc d c relay))
        \<and> (GetGRPC c relay = None \<longrightarrow> snd (RemoveGrpc (snd (AddGrpc d c relay)) relay) = c)"
    if "grpc_Dial d relay = Inr conn"
    using that
    by (auto simp: AddGrpc_def RemoveGrpc_def GetGRPC_def LenGRPC_def fcard_finsert_absent
        fcard_finsert_present fcard_remove_inserted fmdrop_fmupd_fresh)
  from absent absent_grpc legacy grpc show ?thesis by blast
qed

theorem Remove_contract_witness:
  "Get example_relays ''https://relay-c'' = None
   \<and> GetGRPC example_relays ''https://relay-c'' = None
   \<and> rpc_Dial example_Dialer ''https://relay-c'' = Inr (RpcClient 1)
   \<and> grpc_Dial example_Dialer ''https://relay-c'' = Inr (GrpcClient 1)
   \<and> Remove example_relays ''https://relay-c'' =
        (Some (RelayNotFound ''https://relay-c''), example_relays)
   \<and> RemoveGrpc example_relays ''https://relay-c'' =
        (Some (RelayGrpcNotFound ''https://relay-c''), example_relays)
   \<and> Len (snd (Add example_Dialer example_relays ''https://relay-c'')) = 2
   \<and> Remove (snd (Add example_Dialer example_relays ''https://relay-c'')) ''https://relay-c''
       = (None, example_relays)
   \<and> LenGRPC (snd (AddGrpc example_Dialer example_relays ''https://relay-c'')) = 1
   \<and> RemoveGrpc (snd (AddGrpc example_Dialer example_relays ''https://relay-c''))
        ''https://relay-c'' = (None, example_relays)"
proof -
  have absent: "Get example_relays ''https://relay-c'' = None"
    by (simp add: example_relays_def Get_def)
  have absent_grpc: "GetGRPC example_relays ''https://relay-c'' = None"
    by (simp add: example_relays_def GetGRPC_def)
  have dial: "rpc_Dial example_Dialer ''https://relay-c'' = Inr (RpcClient 1)"
    by (simp add: example_Dialer_def)
  have dial_grpc: "grpc_Dial example_Dialer ''https://relay-c'' = Inr (GrpcClient 1)"
    by (simp add: example_Dialer_def)
  have len_grpc: "LenGRPC example_relays = 0"
    by (simp add: example_relays_def LenGRPC_def)
  show ?thesis
    using absent absent_grpc dial dial_grpc len_grpc example_relays_Len
      Remove_contract [of example_relays "''https://relay-c''" example_Dialer "RpcClient 1"
        "GrpcClient 1"]
    by (simp add: prod_eq_iff)
qed

text \<open>
  C9 as stated fails for an endpoint that was already in the pool when it was added
  again: the registry holds one relay, adding that relay again succeeds and keeps the
  count at 1, and removing it leaves 0, not the count of 1 from before the \<open>Add\<close>.
\<close>

theorem Remove_after_Add_counterexample:
  "Get example_relays ''https://relay-a'' = Some (RpcClient 0)
   \<and> fst (Add example_Dialer example_relays ''https://relay-a'') = Inr (RpcClient 1)
   \<and> fst (Remove (snd (Add example_Dialer example_relays ''https://relay-a''))
        ''https://relay-a'') = None
   \<and> Len example_relays = 1
   \<and> Len (snd (Add example_Dialer example_relays ''https://relay-a'')) = 1
   \<and> Len (snd (Remove (snd (Add example_Dialer example_relays ''https://relay-a''))
        ''https://relay-a'')) = 0
   \<and> Len (snd (Remove (snd (Add example_Dialer example_relays ''https://relay-a''))
        ''https://relay-a'')) \<noteq> Len example_relays"
  by (simp add: example_relays_def example_Dialer_def Add_def Remove_def Get_def Len_def
      fcard_finsert_if)

section \<open>Registration\<close>

text \<open>
  C10, as the code has it. When \<open>AddRelay\<close> dials the relay successfully and the
  \<open>eth_registerValidator\<close> call to it fails, \<open>AddRelay\<close> returns that error and the
  relay stays in the registry: \<open>Get\<close> finds the dialled client, and the count is one
  more than before when the relay was not registered before, and unchanged when it was.
\<close>

theorem AddRelay_registration_fails:
  assumes "rpc_Dial d relay = Inr client"
    and "rpc_Call w client ''eth_registerValidator''
           \<lparr>Data = proposedBlockUri miner, Signature = signedProposedBlockUri miner,
            Namespace = proposedBlockNamespace miner, CommitHash = version_CommitHash w,
            args_GasCeil = GasCeil (config (worker miner))\<rparr> = Inl err"
  shows "fst (AddRelay d w miner relay) = Some err
         \<and> Get (mevRelays (snd (AddRelay d w miner relay))) relay = Some client
         \<and> Len (mevRelays (snd (AddRelay d w miner relay))) =
             (if Get (mevRelays miner) relay = None then Suc (Len (mevRelays miner))
              else Len (mevRelays miner))"
  using assms
  by (auto simp: AddRelay_def Add_def Get_def Len_def Let_def fcard_finsert_absent
      fcard_finsert_present)

theorem AddRelay_registration_fails_witness:
  "rpc_Dial example_Dialer ''https://relay-c'' = Inr (RpcClient 1)
   \<and> rpc_Call (example_World 0) (RpcClient 1) ''eth_registerValidator''
        \<lparr>Data = proposedBlockUri example_Miner,
         Signature = signedProposedBlockUri example_Miner,
         Namespace = proposedBlockNamespace example_Miner,
         CommitHash = version_CommitHash (example_World 0),
         args_GasCeil = GasCeil (config (worker example_Miner))\<rparr>
       = Inl (External ''connection refused'')
   \<and> fst (AddRelay example_Dialer (example_World 0) example_Miner ''https://relay-c'')
       = Some (External ''connection refused'')
   \<and> Get (mevRelays (snd (AddRelay example_Dialer (example_World 0) example_Miner
        ''https://relay-c''))) ''https://relay-c'' = Some (RpcClient 1)
   \<and> Len (mevRelays example_Miner) = 1
   \<and> Len (mevRelays (snd (AddRelay example_Dialer (example_World 0) example_Miner
        ''https://relay-c''))) = 2"
proof -
  have dial: "rpc_Dial example_Dialer ''https://relay-c'' = Inr (RpcClient 1)"
    by (simp add: example_Dialer_def)
  have refused: "rpc_Call (example_World 0) (RpcClient 1) ''eth_registerValidator''
        \<lparr>Data = proposedBlockUri example_Miner,
         Signature = signedProposedBlockUri example_Miner,
         Namespace = proposedBlockNamespace example_Miner,
         CommitHash = version_CommitHash (example_World 0),
         args_GasCeil = GasCeil (config (worker example_Miner))\<rparr>
       = Inl (External ''connection refused'')"
    by (simp add: example_World_def)
  have fresh: "Get (mevRelays example_Miner) ''https://relay-c'' = None"
    by (simp add: example_Miner_def example_relays_def Get_def)
  have len: "Len (mevRelays example_Miner) = 1"
    by (simp add: example_Miner_def example_relays_Len)
  show ?thesis
    using dial refused fresh len AddRelay_registration_fails [OF dial refused]
    by simp
qed

text \<open>
  C10 as stated fails for a relay that is already registered: the dial succeeds, the
  registration is refused, \<open>AddRelay\<close> returns the error, and the count stays at 1.
\<close>

theorem AddRelay_count_counterexample:
  "rpc_Dial example_Dialer ''https://relay-a'' = Inr (RpcClient 1)
   \<and> fst (AddRelay example_Dialer (example_World 0) example_Miner ''https://relay-a'')
       = Some (External ''connection refused'')
   \<and> Len (mevRelays example_Miner) = 1
   \<and> Len (mevRelays (snd (AddRelay example_Dialer (example_World 0) example_Miner
        ''https://relay-a''))) = 1
   \<and> Len (mevRelays (snd (AddRelay example_Dialer (example_World 0) example_Miner
        ''https://relay-a''))) \<noteq> Suc (Len (mevRelays example_Miner))"
  by (simp add: AddRelay_def Add_def Len_def Let_def example_Dialer_def example_World_def
      example_Miner_def example_relays_def fcard_finsert_if)

text \<open>
  C3. When a gRPC callback URI is configured and at least one gRPC relay is registered,
  the broadcast issues no legacy call, however many legacy relays there are, and issues
  a gRPC call to exactly the registered gRPC relays. Otherwise it issues no gRPC call
  and issues an \<open>eth_registerValidator\<close> call to exactly the registered legacy relays.
\<close>

theorem registerValidator_transport:
  "(proposedBlockGrpcUri miner \<noteq> [] \<and> 0 < LenGRPC (mevRelays miner) \<longrightarrow>
      ffilter is_legacy_call (registerValidator w miner) = {||}
      \<and> (\<forall>dest destClient.
            (\<exists>request. GrpcRegister dest destClient request |\<in>| registerValidator w miner)
            = (GetGRPC (mevRelays miner) dest = Some destClient)))
   \<and> (\<not> (proposedBlockGrpcUri miner \<noteq> [] \<and> 0 < LenGRPC (mevRelays miner)) \<longrightarrow>
      ffilter (\<lambda>call. \<not> is_legacy_call call) (registerValidator w miner) = {||}
      \<and> (\<forall>dest destClient.
            (\<exists>a. RpcRegister dest destClient ''eth_registerValidator'' a
                   |\<in>| registerValidator w miner)
            = (Get (mevRelays miner) dest = Some destClient)))"
proof -
  have grpc_only: "ffilter is_legacy_call (registerValidatorViaGRPC w miner) = {||}"
    by (auto simp: registerValidatorViaGRPC_def is_legacy_call_def Let_def)
  have grpc_all: "(\<exists>request. GrpcRegister dest destClient request
                      |\<in>| registerValidatorViaGRPC w miner)
                  = (GetGRPC (mevRelays miner) dest = Some destClient)" for dest destClient
  proof
    assume "\<exists>request. GrpcRegister dest destClient request |\<in>| registerValidatorViaGRPC w miner"
    then show "GetGRPC (mevRelays miner) dest = Some destClient"
      by (auto simp: registerValidatorViaGRPC_def MappingGRPC_def GetGRPC_def Let_def)
  next
    assume "GetGRPC (mevRelays miner) dest = Some destClient"
    then have "GrpcRegister dest destClient
                 \<lparr>req_Data = proposedBlockGrpcUri miner,
                  req_Signature = signedProposedBlockUri miner,
                  req_Namespace = proposedBlockNamespace miner,
                  req_CommitHash = version_CommitHash w\<rparr>
               |\<in>| registerValidatorViaGRPC w miner"
      unfolding registerValidatorViaGRPC_def MappingGRPC_def GetGRPC_def Let_def
      by (rule fimage_fset_of_fmapI)
    then show "\<exists>request. GrpcRegister dest destClient request
                 |\<in>| registerValidatorViaGRPC w miner" ..
  qed
  show ?thesis
  proof (cases "proposedBlockGrpcUri miner \<noteq> [] \<and> 0 < LenGRPC (mevRelays miner)")
    case True
    then have "registerValidator w miner = registerValidatorViaGRPC w miner"
      by (simp add: registerValidator_def)
    with True grpc_only grpc_all show ?thesis by simp
  next
    case False
    then have legacy: "registerValidator w miner =
        (\<lambda>(dest, destClient).
            RpcRegister dest destClient ''eth_registerValidator''
              \<lparr>Data = proposedBlockUri miner, Signature = signedProposedBlockUri miner,
               Namespace = proposedBlockNamespace miner, CommitHash = version_CommitHash w,
               args_GasCeil = GasCeil (config (worker miner))\<rparr>)
          |`| fset_of_fmap (Mapping (mevRelays miner))"
      by (auto simp: registerValidator_def Let_def)
    have none_grpc: "ffilter (\<lambda>call. \<not> is_legacy_call call) (registerValidator w miner) = {||}"
      unfolding legacy by (auto simp: is_legacy_call_def)
    have legacy_all: "(\<exists>a. RpcRegister dest destClient ''eth_registerValidator'' a
                          |\<in>| registerValidator w miner)
                      = (Get (mevRelays miner) dest = Some destClient)" for dest destClient
    proof
      assume "\<exists>a. RpcRegister dest destClient ''eth_registerValidator'' a
                 |\<in>| registerValidator w miner"
      then show "Get (mevRelays miner) dest = Some destClient"
        unfolding legacy by (auto simp: Mapping_def Get_def)
    next
      assume "Get (mevRelays miner) dest = Some destClient"
      then have "RpcRegister dest destClient ''eth_registerValidator''
              \<lparr>Data = proposedBlockUri miner, Signature = signedProposedBlockUri miner,
               Namespace = proposedBlockNamespace miner, CommitHash = version_CommitHash w,
               args_GasCeil = GasCeil (config (worker miner))\<rparr>
            |\<in>| registerValidator w miner"
        unfolding legacy Mapping_def Get_def by (rule fimage_fset_of_fmapI)
      then show "\<exists>a. RpcRegister dest destClient ''eth_registerValidator'' a
                   |\<in>| registerValidator w miner" ..
    qed
    from False none_grpc legacy_all show ?thesis by blast
  qed
qed

theorem registerValidator_transport_witness:
  "proposedBlockGrpcUri example_Miner_grpc \<noteq> []
   \<and> 0 < LenGRPC (mevRelays example_Miner_grpc)
   \<and> Len (mevRelays example_Miner_grpc) = 2
   \<and> ffilter is_legacy_call (registerValidator (example_World 0) example_Miner_grpc) = {||}
   \<and> \<not> (proposedBlockGrpcUri example_Miner \<noteq> [] \<and> 0 < LenGRPC (mevRelays example_Miner))
   \<and> ffilter (\<lambda>call. \<not> is_legacy_call call)
        (registerValidator (example_World 0) example_Miner) = {||}"
proof -
  have uri: "proposedBlockGrpcUri example_Miner_grpc \<noteq> []"
    by (simp add: example_Miner_grpc_def example_Miner_def)
  have one: "0 < LenGRPC (mevRelays example_Miner_grpc)"
    by (simp add: example_Miner_grpc_def example_relays_grpc_def LenGRPC_def
        fcard_finsert_if)
  have two: "Len (mevRelays example_Miner_grpc) = 2"
    by (simp add: example_Miner_grpc_def example_relays_grpc_def Len_def fcard_finsert_if)
  have none: "\<not> (proposedBlockGrpcUri example_Miner \<noteq> []
                \<and> 0 < LenGRPC (mevRelays example_Miner))"
    by (simp add: example_Miner_def example_relays_def LenGRPC_def)
  show ?thesis
    using uri one two none
      registerValidator_transport [of example_Miner_grpc "example_World 0"]
      registerValidator_transport [of example_Miner "example_World 0"]
    by blast
qed

section \<open>Bid ingress\<close>

text \<open>
  C7. A bid whose \<open>gasValue\<close> equals its \<open>builderFeeValue\<close> never passes the
  structural validation: \<open>checkBasic\<close> returns one of its errors, and it is "gas value
  is lower than builder fee" when the five checks before that one pass. \<open>Bid\<close> returns
  that error (or "builder is not enabled") after the one call \<open>BuilderEnabled\<close>: the
  head block is never read, so neither the chain-consistency check nor the signature
  check runs.
\<close>

theorem Bid_gasValue_equals_fee:
  assumes "Message bid = Some m" and "GasValue m = BuilderFeeValue m"
  shows "checkBasic c bid \<in> Returned ` Some `
           {MissingBlockNumber, MissingParentHash, MissingGasLimit, MissingGasValue,
            InvalidBuilderFee, GasValueLowerThanBuilderFee}
         \<and> (Block m \<noteq> 0 \<and> ParentHash m \<noteq> [] \<and> \<not> GasLimit m \<le>s 0 \<and> \<not> GasValue m \<le>s 0
              \<and> \<not> BuilderFeeValue m <s 0 \<longrightarrow>
            checkBasic c bid = Returned (Some GasValueLowerThanBuilderFee))
         \<and> Bid c b bid =
             (if BuilderEnabled b then checkBasic c bid else Returned (Some BuilderNotEnabled),
              [Call_BuilderEnabled])
         \<and> Call_CurrentBlock \<notin> set (snd (Bid c b bid))"
  using assms by (simp add: checkBasic_def Bid_def)

theorem Bid_gasValue_equals_fee_witness:
  "GasValue example_BidMessage = BuilderFeeValue example_BidMessage
   \<and> checkBasic example_Codec \<lparr>Message = Some example_BidMessage, bid_Signature = ''0xsig''\<rparr>
       = Returned (Some GasValueLowerThanBuilderFee)
   \<and> Bid example_Codec example_Backend
        \<lparr>Message = Some example_BidMessage, bid_Signature = ''0xsig''\<rparr>
       = (Returned (Some GasValueLowerThanBuilderFee), [Call_BuilderEnabled])"
proof -
  have msg: "Message \<lparr>Message = Some example_BidMessage, bid_Signature = ''0xsig''\<rparr>
             = Some example_BidMessage"
    by simp
  have eq: "GasValue example_BidMessage = BuilderFeeValue example_BidMessage"
    by (simp add: example_BidMessage_def)
  have earlier: "Block example_BidMessage \<noteq> 0 \<and> ParentHash example_BidMessage \<noteq> []
      \<and> \<not> GasLimit example_BidMessage \<le>s 0 \<and> \<not> GasValue example_BidMessage \<le>s 0
      \<and> \<not> BuilderFeeValue example_BidMessage <s 0"
    by (simp add: example_BidMessage_def word_sle_eq word_sless_alt)
  have enabled: "BuilderEnabled example_Backend"
    by (simp add: example_Backend_def)
  show ?thesis
    using eq earlier enabled
      Bid_gasValue_equals_fee [OF msg eq, of example_Codec example_Backend]
    by simp
qed

text \<open>
  C2. The claim is that \<open>Bid\<close> returns for every \<open>BidArgs\<close>, a nil message included.
  On the code it does not: with builder mode on, \<open>checkBasic\<close> reads
  \<open>args.Message.Block\<close> through the nil pointer and the call panics, whatever the
  codecs, the rest of the backend and the signature are.
\<close>

theorem Bid_nil_message_panics:
  "Bid c (b\<lparr>BuilderEnabled := True\<rparr>) \<lparr>Message = None, bid_Signature = sig\<rparr>
     = (Panics NilPointerDereference, [Call_BuilderEnabled])"
  by (simp add: Bid_def checkBasic_def)

text \<open>
  The second way to a panic: a bid that passes \<open>checkBasic\<close> and \<open>checkBlock\<close> and
  whose message the RLP encoder accepts reaches \<open>hexutil.MustDecode\<close>, which panics on
  a signature that is not well-formed hex, where the three steps around it return the
  "fail to verify signature" error.
\<close>

lemma Bid_malformed_signature_panics:
  assumes "BuilderEnabled b"
    and "checkBasic c bid = Returned None"
    and "checkBlock c bid (CurrentBlock b) = Returned (Inr ts)"
    and "rlp_EncodeToBytes c (Message bid) = Inr hash"
    and "hexutil_Decode c (bid_Signature bid) = Inl err"
  shows "fst (Bid c b bid) = Panics (PanicError (bid_Signature bid))"
  using assms by (simp add: Bid_def checkSignature_def MustDecode_def)

lemma example_Bid_malformed_signature:
  "fst (Bid example_Codec example_Backend
     \<lparr>Message = Some (example_BidMessage\<lparr>GasValue := 6\<rparr>), bid_Signature = ''zz''\<rparr>)
   = Panics (PanicError ''zz'')"
  by (simp add: Bid_def checkBasic_def checkBlock_def checkSignature_def MustDecode_def
      example_Codec_def example_Backend_def example_BidMessage_def word_sle_eq word_sless_alt)

section \<open>Block-proposal ingress\<close>

text \<open>
  C8. A request with an empty payload, with block number zero, or with a block number
  that is not strictly greater than the head's number (equal included) is rejected with
  one of the three validation errors, and the pipeline (\<open>backend.ProposedBlock\<close>) is
  not invoked: the only call through the backend is at most \<open>CurrentBlock\<close>.
\<close>

theorem ProposeBlock_rejects:
  assumes "GetPayload r = [] \<or> GetBlockNumber r = 0
           \<or> uint (GetBlockNumber r) \<le> block_Number (CurrentBlock backend)"
  shows "fst (ProposeBlock c backend receivedAt sentAt (Some r)) \<in> Returned ` Inl `
           {ProposedBlockMissingTxs, ProposedBlockMissingBlockNumber,
            IncorrectBlockNumber (GetBlockNumber r) (block_Number (CurrentBlock backend))
              (block_Hash (CurrentBlock backend))}
         \<and> set (snd (ProposeBlock c backend receivedAt sentAt (Some r))) \<subseteq> {Call_CurrentBlock}"
  using assms by (auto simp: ProposeBlock_def Cmp_def SetUint64_def Let_def)

theorem ProposeBlock_rejects_witness:
  "uint (GetBlockNumber example_ProposeBlockRequest) \<le> block_Number (CurrentBlock example_Backend)
   \<and> GetPayload example_ProposeBlockRequest \<noteq> []
   \<and> ProposeBlock example_Codec example_Backend ''t0'' ''t1'' (Some example_ProposeBlockRequest)
       = (Returned (Inl (IncorrectBlockNumber 100 100 (BytesToHash ''0xhead''))),
          [Call_CurrentBlock])
   \<and> ProposeBlock example_Codec example_Backend ''t0'' ''t1''
        (Some (example_ProposeBlockRequest\<lparr>GetPayload := [], GetBlockNumber := 101\<rparr>))
       = (Returned (Inl ProposedBlockMissingTxs), [])"
proof -
  have head: "uint (GetBlockNumber example_ProposeBlockRequest)
              \<le> block_Number (CurrentBlock example_Backend)"
    by (simp add: example_ProposeBlockRequest_def example_Backend_def)
  then have hyp: "GetPayload example_ProposeBlockRequest = []
      \<or> GetBlockNumber example_ProposeBlockRequest = 0
      \<or> uint (GetBlockNumber example_ProposeBlockRequest)
          \<le> block_Number (CurrentBlock example_Backend)"
    by simp
  have empty: "GetPayload (example_ProposeBlockRequest\<lparr>GetPayload := [], GetBlockNumber := 101\<rparr>) = []
      \<or> GetBlockNumber (example_ProposeBlockRequest\<lparr>GetPayload := [], GetBlockNumber := 101\<rparr>) = 0
      \<or> uint (GetBlockNumber (example_ProposeBlockRequest\<lparr>GetPayload := [], GetBlockNumber := 101\<rparr>))
          \<le> block_Number (CurrentBlock example_Backend)"
    by simp
  show ?thesis
    using head
      ProposeBlock_rejects [OF hyp, of example_Codec "''t0''" "''t1''"]
      ProposeBlock_rejects [OF empty, of example_Codec "''t0''" "''t1''"]
    by (simp add: ProposeBlock_def Cmp_def SetUint64_def Let_def example_ProposeBlockRequest_def
        example_Backend_def)
qed

end
